theory Spec2Isabelle
  imports Complex_Main "HOL-Library.List_Lexorder" "HOL-Library.Char_ord" "HOL-Library.Multiset"
begin

section \<open>Python and SQL primitives used by the sync layer\<close>

text \<open>
  Strings are \<^typ>\<open>string\<close>; a character stands for a code point below 256.
  \<open>isspace\<close> lists the code points below 256 for which Python's \<open>str.isspace\<close> holds,
  \<open>strip\<close> is \<open>str.strip()\<close>, \<open>lower\<close> is \<open>str.lower()\<close> on that range (A-Z and the
  Latin-1 capitals move up by 32), \<open>split_on\<close> is \<open>str.split(sep)\<close> for a one-character
  separator.
\<close>

definition isspace :: "char \<Rightarrow> bool" where
  "isspace c = (of_char c \<in> set [9, 10, 11, 12, 13, 28, 29, 30, 31, 32, 133, 160 :: nat])"

definition strip :: "string \<Rightarrow> string" where
  "strip s = rev (dropWhile isspace (rev (dropWhile isspace s)))"

definition lower_char :: "char \<Rightarrow> char" where
  "lower_char c =
     (let n = (of_char c :: nat)
      in if (65 \<le> n \<and> n \<le> 90) \<or> (192 \<le> n \<and> n \<le> 222 \<and> n \<noteq> 215)
         then char_of (n + 32) else c)"

definition lower :: "string \<Rightarrow> string" where
  "lower s = map lower_char s"

fun split_on :: "char \<Rightarrow> string \<Rightarrow> string list" where
  "split_on sep [] = [[]]"
| "split_on sep (c # cs) =
     (if c = sep then [] # split_on sep cs
      else (case split_on sep cs of p # ps \<Rightarrow> (c # p) # ps | [] \<Rightarrow> [[c]]))"

text \<open>
  SQL's \<open>NULLIF(x, 0)\<close> and \<open>COALESCE\<close> over nullable values, and \<open>ROUND(q, 2)\<close> on an
  exact value (half away from zero). The quotient \<open>v / 1073741824\<close> is taken exactly.
\<close>

definition NULLIF0 :: "int option \<Rightarrow> int option" where
  "NULLIF0 x = (if x = Some 0 then None else x)"

fun COALESCE :: "'a option list \<Rightarrow> 'a option" where
  "COALESCE [] = None"
| "COALESCE (None # xs) = COALESCE xs"
| "COALESCE (Some v # xs) = Some v"

definition ROUND2 :: "rat \<Rightarrow> rat" where
  "ROUND2 q = sgn q * of_int \<lfloor>\<bar>q\<bar> * 100 + 1 / 2\<rfloor> / 100"

text \<open>
  \<open>DataFrame.drop_duplicates(subset=[key], keep='first')\<close>: the first row of every key
  stays, in its place.
\<close>

fun drop_duplicates :: "('a \<Rightarrow> 'k) \<Rightarrow> 'a list \<Rightarrow> 'a list" where
  "drop_duplicates key [] = []"
| "drop_duplicates key (x # xs) = x # drop_duplicates key (filter (\<lambda>y. key y \<noteq> key x) xs)"


text \<open>
  \<open>int(s)\<close> for a string: white space around the literal is ignored, one sign may
  lead, and the rest consists of decimal digits, possibly grouped by single underscores
  between digits. CPython refuses a literal of more than 4300 digits. \<open>None\<close> stands
  for \<open>ValueError\<close>.
\<close>

definition isdigit :: "char \<Rightarrow> bool" where
  "isdigit c = (48 \<le> (of_char c :: nat) \<and> (of_char c :: nat) \<le> 57)"

fun underscores_ok :: "string \<Rightarrow> bool" where
  "underscores_ok [] = True"
| "underscores_ok [c] = (c \<noteq> CHR ''_'')"
| "underscores_ok (c # d # cs) = (\<not> (c = CHR ''_'' \<and> d = CHR ''_'') \<and> underscores_ok (d # cs))"

definition int_literal_ok :: "string \<Rightarrow> bool" where
  "int_literal_ok b =
     (case b of [] \<Rightarrow> False
      | c # cs \<Rightarrow> c \<noteq> CHR ''_'' \<and> underscores_ok b
                \<and> list_all (\<lambda>x. isdigit x \<or> x = CHR ''_'') b
                \<and> length (filter isdigit b) \<le> 4300)"

definition digits_value :: "string \<Rightarrow> nat" where
  "digits_value b = foldl (\<lambda>n c. 10 * n + (of_char c - 48)) 0 (filter isdigit b)"

definition py_int :: "string \<Rightarrow> int option" where
  "py_int s =
     (let t = strip s;
          (sign, body) = (case t of
                            c # cs \<Rightarrow> if c = CHR ''-'' then (- 1, cs)
                                      else if c = CHR ''+'' then (1, cs) else (1, t)
                          | [] \<Rightarrow> (1, t))
      in if int_literal_ok body then Some (sign * int (digits_value body)) else None)"


section \<open>Errors\<close>

text \<open>
  The exceptions that the sync layer raises or lets through, each with its message:
  \<open>ValueError\<close> from \<open>int\<close>, \<open>RuntimeError\<close> raised by the commands themselves,
  \<open>SourceError\<close> for any exception of a source connection or query, \<open>CacheError\<close> for a
  failed statement on the cache store, \<open>WarehouseError\<close> for a failed warehouse job.
\<close>

datatype error =
    ValueError string
  | RuntimeError string
  | SourceError string
  | CacheError string
  | WarehouseError string


section \<open>The source registry (\<open>reports/sync.py\<close>, \<open>_parse_sources\<close>)\<close>

type_synonym environ = "string \<rightharpoonup> string"

definition getenv :: "environ \<Rightarrow> string \<Rightarrow> string \<Rightarrow> string" where
  "getenv env k d = (case env k of Some v \<Rightarrow> v | None \<Rightarrow> d)"

record source =
  src_name :: string
  src_host :: string
  src_port :: int
  src_db :: string
  src_user :: string
  src_password :: string

text \<open>The fields of one record of \<open>MARIA_SOURCES\<close>: \<open>[p.strip() for p in item.split(',')]\<close>.\<close>

definition record_parts :: "string \<Rightarrow> string list" where
  "record_parts item = map strip (split_on CHR '','' item)"

text \<open>
  The body of the loop over \<open>sources_raw.split(';')\<close>: a blank item and an item of fewer
  than six fields are passed over (\<open>continue\<close>); \<open>int(port)\<close> raises \<open>ValueError\<close> on the
  first kept record whose port is no integer literal.
\<close>

fun parse_items :: "string list \<Rightarrow> error + source list" where
  "parse_items [] = Inr []"
| "parse_items (item # rest) =
     (let item' = strip item in
      if item' = [] then parse_items rest
      else (case record_parts item' of
              nm # host # port # db # user # password # _ \<Rightarrow>
                (case py_int port of
                   None \<Rightarrow> Inl (ValueError port)
                 | Some p \<Rightarrow>
                     (case parse_items rest of
                        Inl e \<Rightarrow> Inl e
                      | Inr sources \<Rightarrow>
                          Inr (\<lparr>src_name = (if nm \<noteq> [] then nm else host), src_host = host,
                                 src_port = p, src_db = db, src_user = user,
                                 src_password = password\<rparr> # sources)))
            | _ \<Rightarrow> parse_items rest))"

text \<open>The single source of the discrete variables; \<open>MARIA_PORT\<close> defaults to the number 3306.\<close>

definition fallback_source :: "environ \<Rightarrow> error + source list" where
  "fallback_source env =
     (case (case env ''MARIA_PORT'' of None \<Rightarrow> Some 3306 | Some v \<Rightarrow> py_int v) of
        None \<Rightarrow> Inl (ValueError (getenv env ''MARIA_PORT'' []))
      | Some p \<Rightarrow>
          Inr [\<lparr>src_name = getenv env ''MARIA_DB'' ''default'',
                 src_host = getenv env ''MARIA_HOST'' ''localhost'',
                 src_port = p,
                 src_db = getenv env ''MARIA_DB'' [],
                 src_user = getenv env ''MARIA_USER'' ''root'',
                 src_password = getenv env ''MARIA_PASSWORD'' []\<rparr>])"

definition parse_sources :: "environ \<Rightarrow> error + source list" where
  "parse_sources env =
     (let sources_raw = strip (getenv env ''MARIA_SOURCES'' []) in
      case (if sources_raw \<noteq> [] then parse_items (split_on CHR '';'' sources_raw) else Inr []) of
        Inl e \<Rightarrow> Inl e
      | Inr sources \<Rightarrow> if sources \<noteq> [] then Inr sources else fallback_source env)"


section \<open>The fact query's \<open>Package\<close> column (\<open>reports/sync.py\<close>, \<open>_fetch_maria_rows\<close>)\<close>

text \<open>
  The columns of \<open>Hservice\<close> that the fact query reads. The table is reached by a
  \<open>LEFT JOIN\<close>, so every column may be \<open>NULL\<close>; the traffic quotas are byte counts.
\<close>

record hservice =
  ServiceName_of :: "string option"
  STrA :: "int option"
  MTrA :: "int option"
  DTrA :: "int option"
  YTrA :: "int option"
  ExtraTraffic :: "int option"

definition traffic_coalesce :: "hservice \<Rightarrow> int option" where
  "traffic_coalesce h =
     COALESCE [NULLIF0 (STrA h), NULLIF0 (MTrA h), NULLIF0 (DTrA h), NULLIF0 (YTrA h),
               NULLIF0 (ExtraTraffic h)]"

text \<open>
  \<open>CASE WHEN COALESCE(...) IS NULL THEN NULL ELSE ROUND(COALESCE(...) / 1073741824, 2) END\<close>
\<close>

definition Package_expr :: "hservice \<Rightarrow> rat option" where
  "Package_expr h =
     (if traffic_coalesce h = None then None
      else Some (ROUND2 (of_int (the (traffic_coalesce h)) / 1073741824)))"

text \<open>The specification's wording: the first value of the list that is present and not zero.\<close>

definition first_nonzero :: "int option list \<Rightarrow> int option" where
  "first_nonzero xs = (case filter (\<lambda>x. x \<noteq> None \<and> x \<noteq> Some 0) xs of [] \<Rightarrow> None | x # _ \<Rightarrow> x)"

definition zero_or_absent :: "int option \<Rightarrow> bool" where
  "zero_or_absent x = (x = None \<or> x = Some 0)"


section \<open>The reseller identity map (\<open>_fetch_reseller_map\<close> and the backfill command)\<close>

text \<open>The two columns of \<open>Hreseller\<close> that the identity-map query selects.\<close>

record hreseller =
  Reseller_Id :: int
  ResellerName :: "string option"

record map_row =
  creator_norm :: string
  map_rs_userid :: int
  map_rs_name :: string

text \<open>
  \<open>_fetch_reseller_map\<close> on the rows of one source's \<open>Hreseller\<close> table: the query keeps
  the rows \<open>WHERE ResellerName IS NOT NULL AND ResellerName <> ''\<close>, then
  \<open>creator_norm = ResellerName.strip().lower()\<close>, \<open>rs_userid = Reseller_Id\<close> and
  \<open>rs_name\<close> is the name of the source.
\<close>

definition reseller_query :: "hreseller list \<Rightarrow> hreseller list" where
  "reseller_query tbl = filter (\<lambda>r. ResellerName r \<noteq> None \<and> ResellerName r \<noteq> Some []) tbl"

definition fetch_reseller_map :: "string \<Rightarrow> hreseller list \<Rightarrow> map_row list" where
  "fetch_reseller_map source_name tbl =
     map (\<lambda>r. \<lparr>creator_norm = lower (strip (the (ResellerName r))),
               map_rs_userid = Reseller_Id r,
               map_rs_name = source_name\<rparr>)
         (reseller_query tbl)"

text \<open>
  The backfill command collects the non-empty frames of all sources in order
  (\<open>all_map\<close>), concatenates them, removes the rows whose key is blank and keeps the
  first row of every key. (\<open>creator_norm\<close> is a string in every row, so the \<open>notna()\<close>
  filter keeps all of them.)
\<close>

definition collect_maps :: "(string \<times> hreseller list) list \<Rightarrow> map_row list list" where
  "collect_maps srcs =
     filter (\<lambda>df. df \<noteq> []) (map (\<lambda>(nm, tbl). fetch_reseller_map nm tbl) srcs)"

definition dedup_map :: "map_row list list \<Rightarrow> map_row list" where
  "dedup_map all_map =
     (let map_df = concat all_map
      in if map_df = [] then []
         else drop_duplicates creator_norm (filter (\<lambda>r. strip (creator_norm r) \<noteq> []) map_df))"

definition reseller_identity_map :: "(string \<times> hreseller list) list \<Rightarrow> map_row list" where
  "reseller_identity_map srcs = dedup_map (collect_maps srcs)"


text \<open>
  The records of the multi-source descriptor, and the test that the loop applies to each:
  a record is kept when it has at least six fields.
\<close>

definition well_formed :: "string \<Rightarrow> bool" where
  "well_formed item = (6 \<le> length (record_parts (strip item)))"

definition source_records :: "environ \<Rightarrow> string list" where
  "source_records env = split_on CHR '';'' (strip (getenv env ''MARIA_SOURCES'' []))"


section \<open>Properties of the primitives\<close>

lemma drop_duplicates_subset: "set (drop_duplicates key xs) \<subseteq> set xs"
  by (induction key xs rule: drop_duplicates.induct) auto

lemma drop_duplicates_distinct: "distinct (map key (drop_duplicates key xs))"
proof (induction key xs rule: drop_duplicates.induct)
  case (1 key)
  show ?case by simp
next
  case (2 key x xs)
  have "set (drop_duplicates key (filter (\<lambda>y. key y \<noteq> key x) xs))
          \<subseteq> set (filter (\<lambda>y. key y \<noteq> key x) xs)"
    by (rule drop_duplicates_subset)
  then have "key x \<notin> key ` set (drop_duplicates key (filter (\<lambda>y. key y \<noteq> key x) xs))"
    by auto
  with 2 show ?case by simp
qed

lemma find_filter_other:
  "k \<noteq> k' \<Longrightarrow> find (\<lambda>y. key y = k) (filter (\<lambda>y. key y \<noteq> k') xs) = find (\<lambda>y. key y = k) xs"
  by (induction xs) auto

lemma drop_duplicates_first:
  "find (\<lambda>y. key y = k) (drop_duplicates key xs) = find (\<lambda>y. key y = k) xs"
proof (induction key xs rule: drop_duplicates.induct)
  case (1 key)
  show ?case by simp
next
  case (2 key x xs)
  show ?case
  proof (cases "key x = k")
    case True
    then show ?thesis by simp
  next
    case False
    then have "k \<noteq> key x" by blast
    with 2 False show ?thesis by (simp add: find_filter_other)
  qed
qed

lemma COALESCE_first_nonzero: "COALESCE (map NULLIF0 xs) = first_nonzero xs"
proof (induction xs)
  case Nil
  show ?case by (simp add: first_nonzero_def)
next
  case (Cons x xs)
  then show ?case
    by (cases x) (auto simp: first_nonzero_def NULLIF0_def)
qed

lemma first_nonzero_None: "(first_nonzero xs = None) = list_all zero_or_absent xs"
proof (induction xs)
  case Nil
  show ?case by (simp add: first_nonzero_def)
next
  case (Cons x xs)
  then show ?case
    by (cases x) (auto simp: first_nonzero_def zero_or_absent_def)
qed

lemma traffic_coalesce_first_nonzero:
  "traffic_coalesce h = first_nonzero [STrA h, MTrA h, DTrA h, YTrA h, ExtraTraffic h]"
  using COALESCE_first_nonzero [of "[STrA h, MTrA h, DTrA h, YTrA h, ExtraTraffic h]"]
  by (simp add: traffic_coalesce_def)


lemma dedup_map_eq:
  "dedup_map all_map
     = drop_duplicates creator_norm
         (filter (\<lambda>r. strip (creator_norm r) \<noteq> []) (concat all_map))"
proof (cases "concat all_map = []")
  case True
  show ?thesis
    unfolding dedup_map_def Let_def True
    by (simp only: simp_thms if_True filter.simps drop_duplicates.simps)
next
  case False
  show ?thesis
    unfolding dedup_map_def Let_def
    by (simp only: False if_False)
qed


section \<open>The Package column\<close>

text \<open>
  Claim C7. For every row of the fact query, \<open>Package\<close> is \<open>ROUND(v / 2^30, 2)\<close> for the
  first value \<open>v\<close> among \<open>STrA, MTrA, DTrA, YTrA, ExtraTraffic\<close> (in that order) that is
  present and not zero, and \<open>NULL\<close> exactly when all five are zero or absent. With
  \<open>STrA = 0, MTrA = 0, DTrA = 10737418240, YTrA = 0\<close> the value is 10, whatever
  \<open>ExtraTraffic\<close> holds.
\<close>

theorem Package_first_nonzero:
  "Package_expr h =
     map_option (\<lambda>v. ROUND2 (of_int v / 2 ^ 30))
       (first_nonzero [STrA h, MTrA h, DTrA h, YTrA h, ExtraTraffic h])
   \<and> (Package_expr h = None)
       = list_all zero_or_absent [STrA h, MTrA h, DTrA h, YTrA h, ExtraTraffic h]
   \<and> Package_expr \<lparr>ServiceName_of = n, STrA = Some 0, MTrA = Some 0,
                    DTrA = Some 10737418240, YTrA = Some 0, ExtraTraffic = e\<rparr> = Some 10"
proof -
  let ?fs = "[STrA h, MTrA h, DTrA h, YTrA h, ExtraTraffic h]"
  have tc: "traffic_coalesce h = first_nonzero ?fs"
    by (rule traffic_coalesce_first_nonzero)
  have a: "Package_expr h = map_option (\<lambda>v. ROUND2 (of_int v / 2 ^ 30)) (first_nonzero ?fs)"
    by (cases "first_nonzero ?fs") (simp_all add: Package_expr_def tc)
  have b: "(Package_expr h = None) = list_all zero_or_absent ?fs"
    using first_nonzero_None [of ?fs] by (simp add: Package_expr_def tc)
  have r: "ROUND2 (of_int 10737418240 / 1073741824) = 10"
    by code_simp
  have c: "Package_expr \<lparr>ServiceName_of = n, STrA = Some 0, MTrA = Some 0,
                    DTrA = Some 10737418240, YTrA = Some 0, ExtraTraffic = e\<rparr> = Some 10"
    using r by (simp add: Package_expr_def traffic_coalesce_def NULLIF0_def)
  from a b c show ?thesis by blast
qed


section \<open>The reseller identity map\<close>

text \<open>
  Claim C9. Every reseller name that the query returns (present and not empty) is turned
  into the key \<open>creator_norm\<close> by trimming white space and lower-casing; the identity map
  of a backfill run has at most one row per key, and for every key that row is the first
  one carrying the key in the concatenation of the sources' frames (first seen wins); no
  key of the map is blank. The names \<open>ACME Corp\<close> and \<open>acme corp \<close> both give the key
  \<open>acme corp\<close> and end up as one row, that of the first.
\<close>

theorem reseller_identity_map_first_seen:
  "map creator_norm (fetch_reseller_map nm tbl)
     = map (\<lambda>r. lower (strip (the (ResellerName r)))) (reseller_query tbl)
   \<and> distinct (map creator_norm (reseller_identity_map srcs))
   \<and> (\<forall>k. find (\<lambda>r. creator_norm r = k) (reseller_identity_map srcs)
          = find (\<lambda>r. creator_norm r = k)
              (filter (\<lambda>r. strip (creator_norm r) \<noteq> []) (concat (collect_maps srcs))))
   \<and> lower (strip ''ACME Corp'') = ''acme corp''
   \<and> lower (strip ''acme corp '') = ''acme corp''
   \<and> reseller_identity_map
        [(''s1'', [\<lparr>Reseller_Id = 7, ResellerName = Some ''ACME Corp''\<rparr>]),
         (''s2'', [\<lparr>Reseller_Id = 9, ResellerName = Some ''acme corp ''\<rparr>])]
       = [\<lparr>creator_norm = ''acme corp'', map_rs_userid = 7, map_rs_name = ''s1''\<rparr>]"
proof -
  have a: "map creator_norm (fetch_reseller_map nm tbl)
     = map (\<lambda>r. lower (strip (the (ResellerName r)))) (reseller_query tbl)"
    by (simp add: fetch_reseller_map_def comp_def)
  have b: "distinct (map creator_norm (reseller_identity_map srcs))"
    by (simp add: reseller_identity_map_def dedup_map_eq drop_duplicates_distinct)
  have c: "find (\<lambda>r. creator_norm r = k) (reseller_identity_map srcs)
          = find (\<lambda>r. creator_norm r = k)
              (filter (\<lambda>r. strip (creator_norm r) \<noteq> []) (concat (collect_maps srcs)))" for k
    by (simp add: reseller_identity_map_def dedup_map_eq drop_duplicates_first)
  have d: "lower (strip ''ACME Corp'') = ''acme corp''"
    by code_simp
  have e: "lower (strip ''acme corp '') = ''acme corp''"
    by code_simp
  have f: "reseller_identity_map
        [(''s1'', [\<lparr>Reseller_Id = 7, ResellerName = Some ''ACME Corp''\<rparr>]),
         (''s2'', [\<lparr>Reseller_Id = 9, ResellerName = Some ''acme corp ''\<rparr>])]
       = [\<lparr>creator_norm = ''acme corp'', map_rs_userid = 7, map_rs_name = ''s1''\<rparr>]"
    by code_simp
  from a b c d e f show ?thesis by blast
qed


section \<open>The source registry\<close>

lemma split_on_nonempty: "split_on sep s \<noteq> []"
  by (induction s) (auto split: list.splits)

lemma record_parts_blank: "record_parts [] = [[]]"
  by (simp add: record_parts_def strip_def)

lemma short_record_case:
  "length ps < 6 \<Longrightarrow>
   (case ps of a # b # c # d # e # f # r \<Rightarrow> X a b c d e f r | _ \<Rightarrow> Y) = Y"
  by (auto split: list.splits)

lemma parse_items_malformed: "\<not> well_formed item \<Longrightarrow> parse_items (item # rest) = parse_items rest"
  by (simp add: well_formed_def Let_def short_record_case)

lemma parse_items_well_formed:
  "well_formed item \<Longrightarrow> strip item \<noteq> []"
  by (auto simp: well_formed_def record_parts_blank)

lemma parse_items_skip: "parse_items items = parse_items (filter well_formed items)"
proof (induction items)
  case Nil
  show ?case by simp
next
  case (Cons item rest)
  show ?case
  proof (cases "well_formed item")
    case False
    have "parse_items (item # rest) = parse_items rest"
      using False by (rule parse_items_malformed)
    moreover have "filter well_formed (item # rest) = filter well_formed rest"
      using False by simp
    ultimately show ?thesis using Cons by (simp only:)
  next
    case True
    have "parse_items (item # filter well_formed rest) = parse_items (item # rest)"
      by (simp only: parse_items.simps Cons.IH [symmetric])
    moreover have "filter well_formed (item # rest) = item # filter well_formed rest"
      using True by simp
    ultimately show ?thesis by (simp only:)
  qed
qed

lemma parse_items_only_malformed: "parse_items (filter (\<lambda>i. \<not> well_formed i) items) = Inr []"
proof (induction items)
  case Nil
  show ?case by simp
next
  case (Cons item rest)
  show ?case
  proof (cases "well_formed item")
    case True
    then show ?thesis using Cons by (simp del: parse_items.simps)
  next
    case False
    then have "parse_items (item # filter (\<lambda>i. \<not> well_formed i) rest)
        = parse_items (filter (\<lambda>i. \<not> well_formed i) rest)"
      by (rule parse_items_malformed)
    then show ?thesis using False Cons by (simp del: parse_items.simps)
  qed
qed

lemma parse_items_error: "parse_items items = Inl e \<Longrightarrow> \<exists>p. e = ValueError p"
proof (induction items)
  case Nil
  then show ?case by simp
next
  case (Cons item rest)
  then show ?case
    by (auto simp: Let_def split: if_splits list.splits option.splits sum.splits)
qed

lemma fallback_source_result:
  "case fallback_source env of Inl e \<Rightarrow> (\<exists>p. e = ValueError p) | Inr ss \<Rightarrow> ss \<noteq> []"
  by (auto simp: fallback_source_def split: option.splits)

lemma parse_sources_char:
  "parse_sources env =
     (case parse_items (filter well_formed (source_records env)) of
        Inl e \<Rightarrow> Inl e
      | Inr [] \<Rightarrow> fallback_source env
      | Inr (s # ss) \<Rightarrow> Inr (s # ss))"
proof (cases "strip (getenv env ''MARIA_SOURCES'' []) = []")
  case True
  have "source_records env = [[]]"
    unfolding source_records_def True by simp
  moreover have "\<not> well_formed []"
    by (simp add: well_formed_def record_parts_blank strip_def)
  ultimately have "filter well_formed (source_records env) = []"
    by simp
  then show ?thesis
    unfolding parse_sources_def Let_def True by simp
next
  case False
  have "parse_items (filter well_formed (source_records env)) = parse_items (source_records env)"
    by (rule parse_items_skip [symmetric])
  with False show ?thesis
    by (simp add: parse_sources_def source_records_def split: sum.splits list.splits)
qed

text \<open>
  Claim C3, as the code has it. A record of fewer than six fields is passed over in
  silence: the result is that of the kept records alone, and records that are all
  malformed contribute neither a source nor an error. The parser then falls back to the
  one source of the single-source variables, so its result is never the empty list; the
  only exception it raises is the \<open>ValueError\<close> of \<open>int\<close> on a port.
\<close>

theorem parse_sources_never_empty:
  "parse_sources env =
     (case parse_items (filter well_formed (source_records env)) of
        Inl e \<Rightarrow> Inl e
      | Inr [] \<Rightarrow> fallback_source env
      | Inr (s # ss) \<Rightarrow> Inr (s # ss))
   \<and> parse_items (filter (\<lambda>i. \<not> well_formed i) items) = Inr []
   \<and> (case parse_sources env of Inl e \<Rightarrow> (\<exists>p. e = ValueError p) | Inr ss \<Rightarrow> ss \<noteq> [])"
proof -
  have c: "case parse_sources env of Inl e \<Rightarrow> (\<exists>p. e = ValueError p) | Inr ss \<Rightarrow> ss \<noteq> []"
  proof (cases "parse_items (filter well_formed (source_records env))")
    case (Inl e)
    then show ?thesis using parse_items_error [OF Inl] by (simp add: parse_sources_char)
  next
    case (Inr ss)
    then show ?thesis using fallback_source_result [of env]
      by (cases ss) (simp_all add: parse_sources_char)
  qed
  show ?thesis using parse_sources_char parse_items_only_malformed c by blast
qed

text \<open>
  Claim C3 as stated fails: with the one malformed record \<open>a,b,c\<close> the parser returns
  the fallback source, not the empty list, and the record \<open>n,h,x,d,u,p\<close> makes it raise.
\<close>

theorem parse_sources_malformed_counterexample:
  "parse_sources [''MARIA_SOURCES'' \<mapsto> ''a,b,c'']
     = Inr [\<lparr>src_name = ''default'', src_host = ''localhost'', src_port = 3306,
             src_db = [], src_user = ''root'', src_password = []\<rparr>]
   \<and> parse_sources [''MARIA_SOURCES'' \<mapsto> ''a,b,c''] \<noteq> Inr []
   \<and> parse_sources [''MARIA_SOURCES'' \<mapsto> ''n,h,x,d,u,p''] = Inl (ValueError ''x'')"
  by code_simp

end
